theory Spec2Isabelle
  imports Main "HOL-Library.Word"
begin

section \<open>The Go binding of the sandbox engine (judger.go)\<close>

text \<open>
  The package marshals a \<open>Config\<close> into the engine's C struct, calls the engine
  (\<open>C.run\<close>), unmarshals the C result and frees the C strings it allocated.

  Integer widths are those of the platform the binding is built for (Linux, 64 bit, where
  libseccomp lives): Go's \<open>int\<close> is 64 bits, \<open>int32\<close> and \<open>uint32\<close> are 32 bits, and cgo
  gives \<open>C.int\<close> and \<open>C.uint\<close> 32 bits and \<open>C.long\<close> 64 bits. A Go conversion between
  integer types sign-extends a signed value (zero-extends an unsigned one) and then
  truncates it to the width of the target: \<open>scast\<close> and \<open>ucast\<close> on words.
\<close>

type_synonym go_int = "64 word"
type_synonym go_int32 = "32 word"
type_synonym go_uint32 = "32 word"
type_synonym c_int = "32 word"
type_synonym c_uint = "32 word"
type_synonym c_long = "64 word"

definition ArgsMaxNumber :: nat where
  "ArgsMaxNumber = 256"

definition EnvMaxNumber :: nat where
  "EnvMaxNumber = 256"

record Config =
  MaxCPUTime :: go_int
  MaxRealTime :: go_int
  MaxMemory :: go_int32
  MaxStack :: go_int32
  MaxProcessNumber :: go_int
  MaxOutputSize :: go_int32
  MemoryLimitCheckOnly :: go_int
  ExePath :: string
  InputPath :: string
  OutputPath :: string
  ErrorPath :: string
  Args :: "string list"
  Env :: "string list"
  LogPath :: string
  SeccompRuleName :: string
  Uid :: go_uint32
  Gid :: go_uint32

record Result =
  CPUTime :: go_int
  RealTime :: go_int
  Memory :: go_int32
  Signal :: go_int
  ExitCode :: go_int
  Result :: go_int
  Error :: go_int

subsection \<open>C memory\<close>

text \<open>
  A C pointer is either an integer reinterpreted as an address (\<open>IntPtr 0\<close> is the null
  pointer, and \<open>unsafe.Pointer(i)\<close> of an integer \<open>i\<close> is \<open>IntPtr i\<close>) or the address of a
  block that \<open>malloc\<close> returned. The heap maps the live blocks to the C strings they hold
  and logs every call of \<open>C.free\<close> with its argument.
\<close>

datatype c_ptr = IntPtr int | Block nat

definition NULL :: c_ptr where
  "NULL = IntPtr 0"

record c_heap =
  blocks :: "nat \<rightharpoonup> string"
  next_block :: nat
  free_calls :: "c_ptr list"

text \<open>\<open>C.CString\<close> copies a Go string into a fresh block and returns its address.\<close>

definition CString :: "string \<Rightarrow> c_heap \<Rightarrow> c_ptr \<times> c_heap" where
  "CString s h =
     (Block (next_block h),
      h\<lparr>blocks := (blocks h)(next_block h \<mapsto> s), next_block := Suc (next_block h)\<rparr>)"

text \<open>
  \<open>C.free\<close> releases the block its argument names; \<open>free(NULL)\<close> does nothing. Freeing
  any other integer address is undefined in C: the call is logged and the blocks are left
  as they are.
\<close>

definition c_free :: "c_ptr \<Rightarrow> c_heap \<Rightarrow> c_heap" where
  "c_free p h =
     h\<lparr>blocks := (case p of Block k \<Rightarrow> (blocks h)(k := None) | IntPtr _ \<Rightarrow> blocks h),
       free_calls := free_calls h @ [p]\<rparr>"

text \<open>
  The bytes that \<open>C.CString\<close> copied into the block a pointer refers to, if it is a live
  block: the whole Go string, which \<open>C.CString\<close> follows with a NUL byte.
\<close>

definition c_string :: "c_heap \<Rightarrow> c_ptr \<Rightarrow> string option" where
  "c_string h p = (case p of Block k \<Rightarrow> blocks h k | IntPtr _ \<Rightarrow> None)"

text \<open>
  What C code reads at a \<open>char *\<close>: the bytes up to the first NUL byte. A Go string may hold
  NUL bytes, and then the C string is shorter than the Go string.
\<close>

definition c_chars :: "string \<Rightarrow> string" where
  "c_chars s = takeWhile (\<lambda>ch. ch \<noteq> CHR 0x00) s"

definition c_str :: "c_heap \<Rightarrow> c_ptr \<Rightarrow> string option" where
  "c_str h p = map_option c_chars (c_string h p)"

subsection \<open>The engine's structs\<close>

text \<open>
  \<open>struct config\<close> and \<open>struct result\<close> are declared in the engine's C header. The types of
  the fields of \<open>struct config\<close> are those the assignments of \<open>convertToCStruct\<close> give them;
  the two arrays have \<open>ArgsMaxNumber\<close> and \<open>EnvMaxNumber\<close> slots. In \<open>struct result\<close> the
  width of \<open>memory\<close>, the one field that \<open>convertFromCStruct\<close> narrows, is left as the type
  parameter \<open>'l\<close>; the other fields are C ints.
\<close>

record c_config =
  max_cpu_time :: c_int
  max_real_time :: c_int
  max_memory :: c_long
  max_stack :: c_long
  max_process_number :: c_int
  max_output_size :: c_long
  memory_limit_check_only :: c_int
  exe_path :: c_ptr
  input_path :: c_ptr
  output_path :: c_ptr
  error_path :: c_ptr
  args :: "c_ptr list"
  env :: "c_ptr list"
  log_path :: c_ptr
  seccomp_rule_name :: c_ptr
  uid :: c_uint
  gid :: c_uint

record (overloaded) ('l::len) c_result =
  cpu_time :: c_int
  real_time :: c_int
  memory :: "'l word"
  signal :: c_int
  exit_code :: c_int
  result :: c_int
  error :: c_int

text \<open>The zero values Go gives a declared variable of each struct type.\<close>

definition zero_c_config :: c_config where
  "zero_c_config =
     \<lparr>max_cpu_time = 0, max_real_time = 0, max_memory = 0, max_stack = 0,
      max_process_number = 0, max_output_size = 0, memory_limit_check_only = 0,
      exe_path = NULL, input_path = NULL, output_path = NULL, error_path = NULL,
      args = replicate ArgsMaxNumber NULL, env = replicate EnvMaxNumber NULL,
      log_path = NULL, seccomp_rule_name = NULL, uid = 0, gid = 0\<rparr>"

definition zero_Result :: Result where
  "zero_Result =
     \<lparr>CPUTime = 0, RealTime = 0, Memory = 0, Signal = 0, ExitCode = 0, Result = 0, Error = 0\<rparr>"

subsection \<open>convertToCStruct\<close>

text \<open>
  The two loops \<open>for i := 0; i < len(xs) && i < N-1; i++ { arr[i] = C.CString(xs[i]) }\<close>,
  with \<open>N\<close> the maximum number of entries. The guard keeps \<open>i\<close> below the length of \<open>xs\<close>
  and below the \<open>N\<close> slots of the array, so the read and the write are in range.
\<close>

function cstring_loop ::
  "nat \<Rightarrow> nat \<Rightarrow> string list \<Rightarrow> c_ptr list \<Rightarrow> c_heap \<Rightarrow> c_ptr list \<times> c_heap" where
  "cstring_loop N i xs arr h =
     (if i < length xs \<and> i < N - 1
      then (case CString (xs ! i) h of (p, h') \<Rightarrow> cstring_loop N (i + 1) xs (arr[i := p]) h')
      else (arr, h))"
  by pat_completeness auto
termination
  by (relation "measure (\<lambda>(N, i, xs, arr, h). length xs - i)") auto

declare cstring_loop.simps [simp del]

definition convertToCStruct :: "Config \<Rightarrow> c_heap \<Rightarrow> c_config \<times> c_heap" where
  "convertToCStruct c h0 =
     (let cc = zero_c_config;
          cc = cc\<lparr>max_cpu_time := scast (MaxCPUTime c)\<rparr>;
          cc = cc\<lparr>max_real_time := scast (MaxRealTime c)\<rparr>;
          cc = cc\<lparr>max_memory := scast (MaxMemory c)\<rparr>;
          cc = cc\<lparr>max_stack := scast (MaxStack c)\<rparr>;
          cc = cc\<lparr>max_process_number := scast (MaxProcessNumber c)\<rparr>;
          cc = cc\<lparr>max_output_size := scast (MaxOutputSize c)\<rparr>;
          cc = cc\<lparr>memory_limit_check_only := scast (MemoryLimitCheckOnly c)\<rparr>;
          (p, h1) = CString (ExePath c) h0;
          cc = cc\<lparr>exe_path := p\<rparr>;
          (p, h2) = CString (InputPath c) h1;
          cc = cc\<lparr>input_path := p\<rparr>;
          (p, h3) = CString (OutputPath c) h2;
          cc = cc\<lparr>output_path := p\<rparr>;
          (p, h4) = CString (ErrorPath c) h3;
          cc = cc\<lparr>error_path := p\<rparr>;
          (a, h5) = cstring_loop ArgsMaxNumber 0 (Args c) (args cc) h4;
          cc = cc\<lparr>args := a\<rparr>;
          (e, h6) = cstring_loop EnvMaxNumber 0 (Env c) (env cc) h5;
          cc = cc\<lparr>env := e\<rparr>;
          (p, h7) = CString (LogPath c) h6;
          cc = cc\<lparr>log_path := p\<rparr>;
          (p, h8) = CString (SeccompRuleName c) h7;
          cc = cc\<lparr>seccomp_rule_name := p\<rparr>;
          cc = cc\<lparr>uid := ucast (Uid c)\<rparr>;
          cc = cc\<lparr>gid := ucast (Gid c)\<rparr>
      in (cc, h8))"

subsection \<open>convertFromCStruct\<close>

definition convertFromCStruct :: "Result \<Rightarrow> ('l::len) c_result \<Rightarrow> Result" where
  "convertFromCStruct r cr =
     r\<lparr>CPUTime := scast (cpu_time cr),
       RealTime := scast (real_time cr),
       Memory := scast (memory cr),
       Signal := scast (signal cr),
       ExitCode := scast (exit_code cr),
       Result := scast (result cr),
       Error := scast (error cr)\<rparr>"

subsection \<open>Run\<close>

text \<open>
  The two cleanup loops \<open>for i := range arr { if i == 0 { break }; C.free(unsafe.Pointer(i)) }\<close>
  over the indices of an array.
\<close>

fun free_range :: "nat list \<Rightarrow> c_heap \<Rightarrow> c_heap" where
  "free_range [] h = h"
| "free_range (i # is) h =
     (if i = 0 then h else free_range is (c_free (IntPtr (int i)) h))"

text \<open>
  The engine \<open>C.run\<close> is a parameter: it reads the config struct and the C strings it
  points to, and fills in the result struct.
\<close>

definition Run ::
  "(c_config \<Rightarrow> c_heap \<Rightarrow> ('l::len) c_result) \<Rightarrow> Config \<Rightarrow> c_heap \<Rightarrow> Result \<times> c_heap" where
  "Run engine config h0 =
     (let (cConfig, h1) = convertToCStruct config h0;
          cResult = engine cConfig h1;
          result = convertFromCStruct zero_Result cResult;
          h2 = c_free (exe_path cConfig) h1;
          h3 = c_free (input_path cConfig) h2;
          h4 = c_free (output_path cConfig) h3;
          h5 = c_free (error_path cConfig) h4;
          h6 = c_free (log_path cConfig) h5;
          h7 = c_free (seccomp_rule_name cConfig) h6;
          h8 = free_range [0..<length (args cConfig)] h7;
          h9 = free_range [0..<length (env cConfig)] h8
      in (result, h9))"

subsection \<open>The arrays as the engine finds them\<close>

text \<open>
  The doc comment of \<open>Config\<close> calls \<open>Args\<close> and \<open>Env\<close> string arrays terminated by NULL:
  the entries of an array are those up to its first null pointer, each given here by the
  bytes copied into its block.
\<close>

definition c_string_array :: "c_heap \<Rightarrow> c_ptr list \<Rightarrow> string option list" where
  "c_string_array h arr = map (c_string h) (takeWhile (\<lambda>p. p \<noteq> NULL) arr)"

text \<open>The number of entries a copy loop with maximum \<open>N\<close> copies from a list.\<close>

definition copied_count :: "nat \<Rightarrow> string list \<Rightarrow> nat" where
  "copied_count N xs = min (length xs) (N - 1)"

text \<open>
  The heaps between the phases of \<open>convertToCStruct\<close>: after the four path strings, after
  the loop over the arguments, and after the loop over the environment.
\<close>

definition heap_after_paths :: "Config \<Rightarrow> c_heap \<Rightarrow> c_heap" where
  "heap_after_paths c h =
     snd (CString (ErrorPath c) (snd (CString (OutputPath c)
       (snd (CString (InputPath c) (snd (CString (ExePath c) h)))))))"

definition heap_after_args :: "Config \<Rightarrow> c_heap \<Rightarrow> c_heap" where
  "heap_after_args c h =
     snd (cstring_loop ArgsMaxNumber 0 (Args c) (replicate ArgsMaxNumber NULL)
       (heap_after_paths c h))"

definition heap_after_env :: "Config \<Rightarrow> c_heap \<Rightarrow> c_heap" where
  "heap_after_env c h =
     snd (cstring_loop EnvMaxNumber 0 (Env c) (replicate EnvMaxNumber NULL)
       (heap_after_args c h))"

text \<open>A heap with nothing allocated, and a config to run the binding on.\<close>

definition empty_heap :: c_heap where
  "empty_heap = \<lparr>blocks = Map.empty, next_block = 0, free_calls = []\<rparr>"

definition example_config :: Config where
  "example_config =
     \<lparr>MaxCPUTime = - 1, MaxRealTime = - 1, MaxMemory = - 1, MaxStack = - 1,
      MaxProcessNumber = - 1, MaxOutputSize = - 1, MemoryLimitCheckOnly = 0,
      ExePath = ''/bin/true'', InputPath = ''in'', OutputPath = ''out'', ErrorPath = ''err'',
      Args = [''a''], Env = [], LogPath = ''log'', SeccompRuleName = [],
      Uid = 0, Gid = 0\<rparr>"

section \<open>The engine behind \<open>C.run\<close>\<close>

text \<open>
  Modelled from the spec: the outcomes and faults of a run (section 3), the values of the
  engine's \<open>result\<close> and \<open>error\<close> fields, whose C declarations are not part of
  \<open>judger.go\<close>. The fault axis is a \<open>Fault option\<close>, with \<open>None\<close> for the spec's fault
  \<open>None\<close>. The codes are those the doc comment of \<open>Result\<close> lists.
\<close>

datatype Outcome =
  Success | CPUTimeLimitExceeded | RealTimeLimitExceeded | MemoryLimitExceeded
  | RuntimeError | SystemError

datatype Fault =
  InvalidConfig | ForkFailed | WatchdogFailed | WaitFailed | PrivilegeRequired
  | FilterLoadFailed | LimitSetFailed | IORedirectFailed | PrivilegeDropFailed | ExecFailed
  | ExternalCheckerError

fun outcome_code :: "Outcome \<Rightarrow> c_int" where
  "outcome_code Success = 0"
| "outcome_code CPUTimeLimitExceeded = 1"
| "outcome_code RealTimeLimitExceeded = 2"
| "outcome_code MemoryLimitExceeded = 3"
| "outcome_code RuntimeError = 4"
| "outcome_code SystemError = 5"

fun fault_code :: "Fault option \<Rightarrow> c_int" where
  "fault_code None = 0"
| "fault_code (Some InvalidConfig) = - 1"
| "fault_code (Some ForkFailed) = - 2"
| "fault_code (Some WatchdogFailed) = - 3"
| "fault_code (Some WaitFailed) = - 4"
| "fault_code (Some PrivilegeRequired) = - 5"
| "fault_code (Some FilterLoadFailed) = - 6"
| "fault_code (Some LimitSetFailed) = - 7"
| "fault_code (Some IORedirectFailed) = - 8"
| "fault_code (Some PrivilegeDropFailed) = - 9"
| "fault_code (Some ExecFailed) = - 10"
| "fault_code (Some ExternalCheckerError) = - 11"

text \<open>
  Modelled from the spec: the input of the Result Classifier (section 4.6), which the
  engine's C code gathers and \<open>judger.go\<close> never sees: the child's terminating signal (0 if
  none), its exit code, the three measurements, and where the terminating signal came
  from. Either the watchdog performed the kill, or the operating system delivered the
  signal; of a delivered signal it is known whether it is one that exceeding the CPU-time
  ceiling produces, and whether it is one that exceeding the memory ceiling produces.
\<close>

datatype signal_origin = Watchdog | Delivered bool bool

record (overloaded) ('l::len) child_status =
  term_signal :: c_int
  exit_status :: c_int
  cpu_used :: c_int
  real_used :: c_int
  memory_used :: "'l word"
  origin :: signal_origin

fun cpu_limit_signal :: "signal_origin \<Rightarrow> bool" where
  "cpu_limit_signal Watchdog = False"
| "cpu_limit_signal (Delivered by_cpu by_memory) = by_cpu"

fun memory_limit_signal :: "signal_origin \<Rightarrow> bool" where
  "memory_limit_signal Watchdog = False"
| "memory_limit_signal (Delivered by_cpu by_memory) = by_memory"

text \<open>
  Modelled from the spec: the limit tests of the Result Classifier (sections 4.1, 4.6 and
  6), part of the engine's C code. The sentinel on a numeric limit, \<open>-1\<close> in the doc comment
  of \<open>Config\<close>, disables that limit. A limit is hit when the measurement is at or beyond the
  configured ceiling. The watchdog exists when a wall-clock limit is configured. A
  terminating signal can be explained by a limit when that limit is configured and the
  signal is one that exceeding it produces.
\<close>

definition unlimited :: "'a::len word \<Rightarrow> bool" where
  "unlimited lim = (lim = - 1)"

definition cpu_time_hit :: "c_config \<Rightarrow> ('l::len) child_status \<Rightarrow> bool" where
  "cpu_time_hit cc t =
     (\<not> unlimited (max_cpu_time cc) \<and> sint (max_cpu_time cc) \<le> sint (cpu_used t))"

definition real_time_hit :: "c_config \<Rightarrow> ('l::len) child_status \<Rightarrow> bool" where
  "real_time_hit cc t =
     (\<not> unlimited (max_real_time cc) \<and> sint (max_real_time cc) \<le> sint (real_used t))"

definition memory_hit :: "c_config \<Rightarrow> ('l::len) child_status \<Rightarrow> bool" where
  "memory_hit cc t =
     (\<not> unlimited (max_memory cc) \<and> sint (max_memory cc) \<le> sint (memory_used t))"

definition watchdog_kill :: "c_config \<Rightarrow> ('l::len) child_status \<Rightarrow> bool" where
  "watchdog_kill cc t =
     (\<not> unlimited (max_real_time cc) \<and> term_signal t \<noteq> 0 \<and> origin t = Watchdog)"

definition cpu_signal :: "c_config \<Rightarrow> ('l::len) child_status \<Rightarrow> bool" where
  "cpu_signal cc t =
     (\<not> unlimited (max_cpu_time cc) \<and> term_signal t \<noteq> 0 \<and> cpu_limit_signal (origin t))"

definition memory_signal :: "c_config \<Rightarrow> ('l::len) child_status \<Rightarrow> bool" where
  "memory_signal cc t =
     (\<not> unlimited (max_memory cc) \<and> term_signal t \<noteq> 0 \<and> memory_limit_signal (origin t))"

text \<open>
  Modelled from the spec: the Result Classifier of the engine (section 4.6 and the tie-break
  policy of section 4.1), which is C code behind \<open>C.run\<close> and not part of \<open>judger.go\<close>.
  A kill by the watchdog is the wall-clock limit, whatever the CPU time consumed. A
  terminating signal that both the CPU-time limit and the memory limit could explain goes
  to CPU time exactly when the measured CPU time is at or beyond the ceiling, and to memory
  otherwise. Then come the outcomes in the order of section 4.6: the CPU-time limit, the
  wall-clock limit, the memory limit, a non-zero exit code or any other signal, and
  success.
\<close>

definition classify :: "c_config \<Rightarrow> ('l::len) child_status \<Rightarrow> Outcome" where
  "classify cc t =
     (if watchdog_kill cc t then RealTimeLimitExceeded
      else if cpu_signal cc t \<and> memory_signal cc t
        then (if cpu_time_hit cc t then CPUTimeLimitExceeded else MemoryLimitExceeded)
      else if cpu_time_hit cc t \<or> cpu_signal cc t then CPUTimeLimitExceeded
      else if real_time_hit cc t then RealTimeLimitExceeded
      else if memory_hit cc t \<or> memory_signal cc t then MemoryLimitExceeded
      else if exit_status t \<noteq> 0 \<or> term_signal t \<noteq> 0 then RuntimeError
      else Success)"

text \<open>
  Modelled from the spec: the validation the Process Supervisor does before forking
  (section 4.1): the executable path is non-empty, and the uid and the gid are resolvable.
  Which ids resolve is a fact of the host. The engine reads the path as C does, up to the
  first NUL byte.
\<close>

record host =
  known_user :: "c_uint \<Rightarrow> bool"
  known_group :: "c_uint \<Rightarrow> bool"

definition valid_config :: "host \<Rightarrow> c_config \<Rightarrow> c_heap \<Rightarrow> bool" where
  "valid_config hst cc h =
     (c_str h (exe_path cc) \<noteq> None \<and> c_str h (exe_path cc) \<noteq> Some [] \<and>
      known_user hst (uid cc) \<and> known_group hst (gid cc))"

text \<open>
  Modelled from the spec: the Process Supervisor of the engine (section 4.1), the body of
  \<open>C.run\<close>, which is not part of \<open>judger.go\<close>. A config that fails the validation is
  rejected before anything runs, with fault \<open>InvalidConfig\<close>. Otherwise the run either
  stops on a fault of the engine (\<open>Inl\<close>: the fork, the watchdog, the wait, a missing
  privilege, or a setup step of the child, which then never executes the program), reported
  with outcome \<open>SystemError\<close>; or the child executes the program and terminates (\<open>Inr\<close>), and
  the measurements are reported with the classifier's outcome and no fault.
\<close>

definition system_error :: "Fault \<Rightarrow> ('l::len) c_result" where
  "system_error f =
     \<lparr>cpu_time = 0, real_time = 0, memory = 0, signal = 0, exit_code = 0,
      result = outcome_code SystemError, error = fault_code (Some f)\<rparr>"

definition engine_run ::
  "host \<Rightarrow> Fault + ('l::len) child_status \<Rightarrow> c_config \<Rightarrow> c_heap \<Rightarrow> 'l c_result" where
  "engine_run hst run cc h =
     (if \<not> valid_config hst cc h then system_error InvalidConfig
      else case run of
        Inl f \<Rightarrow> system_error f
      | Inr t \<Rightarrow>
          \<lparr>cpu_time = cpu_used t, real_time = real_used t, memory = memory_used t,
           signal = term_signal t, exit_code = exit_status t,
           result = outcome_code (classify cc t), error = fault_code None\<rparr>)"


definition clean_exit :: "64 child_status" where
  "clean_exit =
     \<lparr>term_signal = 0, exit_status = 0, cpu_used = 3, real_used = 5,
      memory_used = 1048576, origin = Delivered False False\<rparr>"

definition big_memory_result :: "64 c_result" where
  "big_memory_result =
     \<lparr>cpu_time = 10, real_time = 20, memory = 2147483648, signal = 0, exit_code = 0,
      result = 0, error = 0\<rparr>"

section \<open>The copy loops and the heap\<close>

lemma cstring_loop_step:
  "i < length xs \<Longrightarrow> i < N - 1 \<Longrightarrow>
   cstring_loop N i xs arr h =
     cstring_loop N (Suc i) xs (arr[i := Block (next_block h)])
       (h\<lparr>blocks := (blocks h)(next_block h \<mapsto> xs ! i), next_block := Suc (next_block h)\<rparr>)"
  by (subst cstring_loop.simps) (simp add: CString_def)

lemma cstring_loop_stop:
  "\<not> (i < length xs \<and> i < N - 1) \<Longrightarrow> cstring_loop N i xs arr h = (arr, h)"
  by (subst cstring_loop.simps) (simp only: if_False)

lemma cstring_loop_fst:
  "i + d = min (length xs) (N - 1) \<Longrightarrow> i + d \<le> length arr \<Longrightarrow>
   fst (cstring_loop N i xs arr h) =
     take i arr @ map Block [next_block h ..< next_block h + d] @ drop (i + d) arr"
proof (induction d arbitrary: i arr h)
  case 0
  then have "\<not> (i < length xs \<and> i < N - 1)" by linarith
  then show ?case by (simp add: cstring_loop_stop)
next
  case (Suc d)
  let ?p = "Block (next_block h)"
  let ?h = "h\<lparr>blocks := (blocks h)(next_block h \<mapsto> xs ! i), next_block := Suc (next_block h)\<rparr>"
  from Suc.prems have lt: "i < length xs" "i < N - 1" and il: "i < length arr"
    and d: "Suc i + d = min (length xs) (N - 1)" "Suc i + d \<le> length arr"
    by linarith+
  have ih: "fst (cstring_loop N (Suc i) xs (arr[i := ?p]) ?h) =
      take (Suc i) (arr[i := ?p]) @ map Block [Suc (next_block h) ..< Suc (next_block h) + d]
        @ drop (Suc i + d) (arr[i := ?p])"
    using Suc.IH [of "Suc i" "arr[i := ?p]" ?h] d by simp
  have t: "take (Suc i) (arr[i := ?p]) = take i arr @ [?p]"
    using il by (simp add: take_Suc_conv_app_nth)
  have dr: "drop (Suc i + d) (arr[i := ?p]) = drop (i + Suc d) arr"
    by simp
  have u: "[next_block h ..< next_block h + Suc d] =
      next_block h # [Suc (next_block h) ..< Suc (next_block h) + d]"
    by (simp add: upt_conv_Cons)
  show ?case
    unfolding cstring_loop_step [OF lt] ih t dr u by simp
qed

lemma cstring_loop_next:
  "i + d = min (length xs) (N - 1) \<Longrightarrow>
   next_block (snd (cstring_loop N i xs arr h)) = next_block h + d"
proof (induction d arbitrary: i arr h)
  case 0
  then have "\<not> (i < length xs \<and> i < N - 1)" by linarith
  then show ?case by (simp add: cstring_loop_stop)
next
  case (Suc d)
  then have lt: "i < length xs" "i < N - 1" and d: "Suc i + d = min (length xs) (N - 1)"
    by linarith+
  show ?case
    unfolding cstring_loop_step [OF lt] using Suc.IH [OF d] by simp
qed

lemma cstring_loop_free_calls:
  "i + d = min (length xs) (N - 1) \<Longrightarrow>
   free_calls (snd (cstring_loop N i xs arr h)) = free_calls h"
proof (induction d arbitrary: i arr h)
  case 0
  then have "\<not> (i < length xs \<and> i < N - 1)" by linarith
  then show ?case by (simp add: cstring_loop_stop)
next
  case (Suc d)
  then have lt: "i < length xs" "i < N - 1" and d: "Suc i + d = min (length xs) (N - 1)"
    by linarith+
  show ?case
    unfolding cstring_loop_step [OF lt] using Suc.IH [OF d] by simp
qed

lemma cstring_loop_blocks:
  "i + d = min (length xs) (N - 1) \<Longrightarrow>
   blocks (snd (cstring_loop N i xs arr h)) k =
     (if next_block h \<le> k \<and> k < next_block h + d
      then Some (xs ! (i + (k - next_block h))) else blocks h k)"
proof (induction d arbitrary: i arr h)
  case 0
  then have "\<not> (i < length xs \<and> i < N - 1)" by linarith
  then show ?case by (auto simp: cstring_loop_stop)
next
  case (Suc d)
  then have lt: "i < length xs" "i < N - 1" and d: "Suc i + d = min (length xs) (N - 1)"
    by linarith+
  have a: "\<And>m. Suc m \<le> k \<Longrightarrow> Suc (i + k - Suc m) = i + k - m"
    by arith
  show ?case
    unfolding cstring_loop_step [OF lt] using Suc.IH [OF d]
    by (auto simp: a)
qed

lemma free_range_upt: "free_range [0..<n] h = h"
proof (cases n)
  case 0
  then show ?thesis by simp
next
  case (Suc m)
  have "[0..<Suc m] = 0 # [Suc 0..<Suc m]"
    by (rule upt_conv_Cons) simp
  then have "free_range [0..<Suc m] h = free_range (0 # [Suc 0..<Suc m]) h"
    by (simp only:)
  also have "\<dots> = h"
    by simp
  finally show ?thesis
    using Suc by simp
qed

lemma cstring_loop_array:
  "fst (cstring_loop N 0 xs (replicate N NULL) h) =
     map Block [next_block h ..< next_block h + copied_count N xs]
       @ replicate (N - copied_count N xs) NULL"
  using cstring_loop_fst [of 0 "copied_count N xs" xs N "replicate N NULL" h]
  by (simp add: copied_count_def)

lemma cstring_loop_next_block:
  "next_block (snd (cstring_loop N 0 xs arr h)) = next_block h + copied_count N xs"
  using cstring_loop_next [of 0 "copied_count N xs" xs N arr h]
  by (simp add: copied_count_def)

lemma cstring_loop_keeps_free_calls:
  "free_calls (snd (cstring_loop N 0 xs arr h)) = free_calls h"
  using cstring_loop_free_calls [of 0 "copied_count N xs" xs N arr h]
  by (simp add: copied_count_def)

lemma cstring_loop_heap:
  "blocks (snd (cstring_loop N 0 xs arr h)) k =
     (if next_block h \<le> k \<and> k < next_block h + copied_count N xs
      then Some (xs ! (k - next_block h)) else blocks h k)"
  using cstring_loop_blocks [of 0 "copied_count N xs" xs N arr h k]
  by (simp add: copied_count_def)

lemmas conv_unfold = convertToCStruct_def Let_def split_def zero_c_config_def

lemma conv_struct:
  "fst (convertToCStruct c h) =
     \<lparr>max_cpu_time = scast (MaxCPUTime c), max_real_time = scast (MaxRealTime c),
      max_memory = scast (MaxMemory c), max_stack = scast (MaxStack c),
      max_process_number = scast (MaxProcessNumber c),
      max_output_size = scast (MaxOutputSize c),
      memory_limit_check_only = scast (MemoryLimitCheckOnly c),
      exe_path = Block (next_block h), input_path = Block (next_block h + 1),
      output_path = Block (next_block h + 2), error_path = Block (next_block h + 3),
      args = fst (cstring_loop ArgsMaxNumber 0 (Args c) (replicate ArgsMaxNumber NULL)
        (heap_after_paths c h)),
      env = fst (cstring_loop EnvMaxNumber 0 (Env c) (replicate EnvMaxNumber NULL)
        (heap_after_args c h)),
      log_path = Block (next_block (heap_after_env c h)),
      seccomp_rule_name = Block (next_block (heap_after_env c h) + 1),
      uid = ucast (Uid c), gid = ucast (Gid c)\<rparr>"
  by (simp add: conv_unfold CString_def heap_after_paths_def heap_after_args_def
      heap_after_env_def)

lemma conv_heap:
  "snd (convertToCStruct c h) =
     snd (CString (SeccompRuleName c) (snd (CString (LogPath c) (heap_after_env c h))))"
  by (simp add: conv_unfold heap_after_paths_def heap_after_args_def heap_after_env_def)

lemma next_after_paths: "next_block (heap_after_paths c h) = next_block h + 4"
  by (simp add: heap_after_paths_def CString_def)

lemma next_after_args:
  "next_block (heap_after_args c h) = next_block h + 4 + copied_count ArgsMaxNumber (Args c)"
  by (simp only: heap_after_args_def cstring_loop_next_block next_after_paths)

lemma next_after_env:
  "next_block (heap_after_env c h) =
     next_block h + 4 + copied_count ArgsMaxNumber (Args c) + copied_count EnvMaxNumber (Env c)"
  by (simp only: heap_after_env_def cstring_loop_next_block next_after_args)

lemma conv_args:
  "args (fst (convertToCStruct c h)) =
     map Block [next_block h + 4 ..< next_block h + 4 + copied_count ArgsMaxNumber (Args c)]
       @ replicate (ArgsMaxNumber - copied_count ArgsMaxNumber (Args c)) NULL"
  by (simp only: conv_struct c_config.simps cstring_loop_array next_after_paths)

lemma conv_env:
  "env (fst (convertToCStruct c h)) =
     map Block [next_block h + 4 + copied_count ArgsMaxNumber (Args c) ..<
                next_block h + 4 + copied_count ArgsMaxNumber (Args c)
                  + copied_count EnvMaxNumber (Env c)]
       @ replicate (EnvMaxNumber - copied_count EnvMaxNumber (Env c)) NULL"
  by (simp only: conv_struct c_config.simps cstring_loop_array next_after_args)

lemma blocks_after_paths:
  "blocks (heap_after_paths c h) =
     (blocks h)(next_block h \<mapsto> ExePath c, next_block h + 1 \<mapsto> InputPath c,
       next_block h + 2 \<mapsto> OutputPath c, next_block h + 3 \<mapsto> ErrorPath c)"
  by (simp add: heap_after_paths_def CString_def numeral_3_eq_3 numeral_2_eq_2)

lemma free_calls_after_env: "free_calls (heap_after_env c h) = free_calls h"
  by (simp add: heap_after_env_def heap_after_args_def heap_after_paths_def
      cstring_loop_keeps_free_calls CString_def)

lemma sint_scast_narrow:
  fixes w :: "'a::len word"
  assumes "- (2 ^ 31) \<le> sint w" and "sint w < 2 ^ 31"
  shows "sint (scast w :: 32 word) = sint w"
proof -
  have "sint (scast w :: 32 word) = sint (word_of_int (sint w) :: 32 word)"
    by (simp only: scast_eq)
  also have "\<dots> = signed_take_bit (LENGTH(32) - 1) (sint w)"
    by (rule sint_sbintrunc')
  also have "\<dots> = sint w"
    using assms by (intro signed_take_bit_int_eq_self) simp_all
  finally show ?thesis .
qed

lemma sint_scast_widen: "sint (scast (x :: 32 word) :: 64 word) = sint x"
  by (simp add: sint_up_scast is_up)

lemma sint_32_range: "- 2147483648 \<le> sint (x :: 32 word) \<and> sint x \<le> 2147483647"
  using sint_ge [of x] sint_lt [of x] by simp

lemma conv_blocks:
  "blocks (snd (convertToCStruct c h)) k =
     (let a = next_block h + 4; e = a + copied_count ArgsMaxNumber (Args c);
          l = e + copied_count EnvMaxNumber (Env c)
      in if k = l + 1 then Some (SeccompRuleName c)
         else if k = l then Some (LogPath c)
         else if e \<le> k \<and> k < l then Some (Env c ! (k - e))
         else if a \<le> k \<and> k < e then Some (Args c ! (k - a))
         else if k = next_block h + 3 then Some (ErrorPath c)
         else if k = next_block h + 2 then Some (OutputPath c)
         else if k = next_block h + 1 then Some (InputPath c)
         else if k = next_block h then Some (ExePath c)
         else blocks h k)"
proof -
  have e: "blocks (heap_after_env c h) k =
      (if next_block (heap_after_args c h) \<le> k
          \<and> k < next_block (heap_after_args c h) + copied_count EnvMaxNumber (Env c)
       then Some (Env c ! (k - next_block (heap_after_args c h)))
       else blocks (heap_after_args c h) k)"
    by (simp only: heap_after_env_def cstring_loop_heap)
  have a: "blocks (heap_after_args c h) k =
      (if next_block (heap_after_paths c h) \<le> k
          \<and> k < next_block (heap_after_paths c h) + copied_count ArgsMaxNumber (Args c)
       then Some (Args c ! (k - next_block (heap_after_paths c h)))
       else blocks (heap_after_paths c h) k)"
    by (simp only: heap_after_args_def cstring_loop_heap)
  have f: "blocks (snd (convertToCStruct c h)) k =
      (if k = next_block (heap_after_env c h) + 1 then Some (SeccompRuleName c)
       else if k = next_block (heap_after_env c h) then Some (LogPath c)
       else blocks (heap_after_env c h) k)"
    by (simp add: conv_heap CString_def)
  show ?thesis
    unfolding f e a next_after_env next_after_args next_after_paths blocks_after_paths Let_def
    by auto
qed

lemma conv_exe_path:
  "c_str (snd (convertToCStruct c h)) (exe_path (fst (convertToCStruct c h))) =
     Some (c_chars (ExePath c))"
  by (simp add: c_str_def c_string_def conv_struct conv_blocks Let_def)

lemma nul_path_is_invalid:
  "\<not> valid_config hst
     (fst (convertToCStruct (c\<lparr>ExePath := CHR 0x00 # p\<rparr>) h))
     (snd (convertToCStruct (c\<lparr>ExePath := CHR 0x00 # p\<rparr>) h))"
  by (simp add: valid_config_def conv_exe_path c_chars_def)

lemma engine_fault_is_system_error:
  "valid_config hst cc h \<Longrightarrow>
   engine_run hst (Inl f) cc h = system_error f"
  by (simp add: engine_run_def)

lemma Run_fst:
  "fst (Run engine c h) =
     convertFromCStruct zero_Result
       (engine (fst (convertToCStruct c h)) (snd (convertToCStruct c h)))"
  by (simp add: Run_def Let_def split_def)

lemma Run_snd:
  "snd (Run engine c h) =
     c_free (seccomp_rule_name (fst (convertToCStruct c h)))
       (c_free (log_path (fst (convertToCStruct c h)))
         (c_free (error_path (fst (convertToCStruct c h)))
           (c_free (output_path (fst (convertToCStruct c h)))
             (c_free (input_path (fst (convertToCStruct c h)))
               (c_free (exe_path (fst (convertToCStruct c h)))
                 (snd (convertToCStruct c h)))))))"
  by (simp add: Run_def Let_def split_def free_range_upt)

lemma copied_count_less: "0 < N \<Longrightarrow> copied_count N xs < N"
  by (auto simp: copied_count_def min_def)

lemma copied_count_le: "copied_count N xs \<le> length xs"
  by (simp add: copied_count_def)

lemma takeWhile_blocks:
  "0 < m \<Longrightarrow> takeWhile (\<lambda>p. p \<noteq> NULL) (map Block ks @ replicate m NULL) = map Block ks"
proof -
  assume m: "0 < m"
  have "takeWhile (\<lambda>p. p \<noteq> NULL) (map Block ks @ replicate m NULL) =
      map Block ks @ takeWhile (\<lambda>p. p \<noteq> NULL) (replicate m NULL)"
    by (rule takeWhile_append2) (auto simp: NULL_def)
  also have "takeWhile (\<lambda>p. p \<noteq> NULL) (replicate m NULL) = []"
    using m by (cases m) simp_all
  finally show ?thesis by simp
qed

lemma conv_blocks_arg:
  "i < copied_count ArgsMaxNumber (Args c) \<Longrightarrow>
   blocks (snd (convertToCStruct c h)) (next_block h + 4 + i) = Some (Args c ! i)"
  by (simp add: conv_blocks Let_def)

lemma conv_blocks_env:
  "i < copied_count EnvMaxNumber (Env c) \<Longrightarrow>
   blocks (snd (convertToCStruct c h))
     (next_block h + 4 + copied_count ArgsMaxNumber (Args c) + i) = Some (Env c ! i)"
  by (simp add: conv_blocks Let_def)

lemma conv_args_strings:
  "c_string_array (snd (convertToCStruct c h)) (args (fst (convertToCStruct c h))) =
     map Some (take (ArgsMaxNumber - 1) (Args c))"
proof -
  let ?n = "copied_count ArgsMaxNumber (Args c)"
  let ?a = "next_block h + 4"
  have pos: "0 < ArgsMaxNumber - ?n"
    using copied_count_less [of ArgsMaxNumber "Args c"] by (simp add: ArgsMaxNumber_def)
  have "c_string_array (snd (convertToCStruct c h)) (args (fst (convertToCStruct c h))) =
      map (c_string (snd (convertToCStruct c h))) (map Block [?a ..< ?a + ?n])"
    unfolding c_string_array_def conv_args takeWhile_blocks [OF pos] ..
  also have "\<dots> = map Some (take ?n (Args c))"
    using copied_count_le [of ArgsMaxNumber "Args c"]
    by (intro nth_equalityI) (simp_all add: c_string_def conv_blocks_arg)
  also have "take ?n (Args c) = take (ArgsMaxNumber - 1) (Args c)"
    by (simp add: copied_count_def min_def)
  finally show ?thesis .
qed

lemma conv_env_strings:
  "c_string_array (snd (convertToCStruct c h)) (env (fst (convertToCStruct c h))) =
     map Some (take (EnvMaxNumber - 1) (Env c))"
proof -
  let ?n = "copied_count EnvMaxNumber (Env c)"
  let ?a = "next_block h + 4 + copied_count ArgsMaxNumber (Args c)"
  have pos: "0 < EnvMaxNumber - ?n"
    using copied_count_less [of EnvMaxNumber "Env c"] by (simp add: EnvMaxNumber_def)
  have "c_string_array (snd (convertToCStruct c h)) (env (fst (convertToCStruct c h))) =
      map (c_string (snd (convertToCStruct c h))) (map Block [?a ..< ?a + ?n])"
    unfolding c_string_array_def conv_env takeWhile_blocks [OF pos] ..
  also have "\<dots> = map Some (take ?n (Env c))"
    using copied_count_le [of EnvMaxNumber "Env c"]
    by (intro nth_equalityI) (simp_all add: c_string_def conv_blocks_env)
  also have "take ?n (Env c) = take (EnvMaxNumber - 1) (Env c)"
    by (simp add: copied_count_def min_def)
  finally show ?thesis .
qed

lemma cstring_loop_take:
  "i + d = min (length xs) (N - 1) \<Longrightarrow>
   cstring_loop N i (take (N - 1) xs) arr h = cstring_loop N i xs arr h"
proof (induction d arbitrary: i arr h)
  case 0
  then have a: "\<not> (i < length xs \<and> i < N - 1)"
    and b: "\<not> (i < length (take (N - 1) xs) \<and> i < N - 1)"
    by simp_all
  show ?case
    unfolding cstring_loop_stop [OF a] cstring_loop_stop [OF b] ..
next
  case (Suc d)
  then have lt: "i < length xs" "i < N - 1" and d: "Suc i + d = min (length xs) (N - 1)"
    by linarith+
  then have lt': "i < length (take (N - 1) xs)" by simp
  have nth: "take (N - 1) xs ! i = xs ! i" using lt by simp
  show ?case
    unfolding cstring_loop_step [OF lt] cstring_loop_step [OF lt' lt(2)] nth
    by (rule Suc.IH [OF d])
qed

lemma cstring_loop_first_entries:
  "cstring_loop N 0 (take (N - 1) xs) arr h = cstring_loop N 0 xs arr h"
  by (rule cstring_loop_take [of 0 "min (length xs) (N - 1)"]) simp

lemma conv_truncates:
  "convertToCStruct (c\<lparr>Args := take (ArgsMaxNumber - 1) (Args c),
       Env := take (EnvMaxNumber - 1) (Env c)\<rparr>) h = convertToCStruct c h"
  by (simp add: conv_unfold cstring_loop_first_entries [simplified])

lemma conv_free_calls: "free_calls (snd (convertToCStruct c h)) = free_calls h"
  by (simp add: conv_heap CString_def free_calls_after_env)

lemma example_counts:
  "copied_count ArgsMaxNumber (Args example_config) = 1"
  "copied_count EnvMaxNumber (Env example_config) = 0"
  by (simp_all add: copied_count_def example_config_def ArgsMaxNumber_def)

lemma example_pointers:
  "exe_path (fst (convertToCStruct example_config empty_heap)) = Block 0"
  "input_path (fst (convertToCStruct example_config empty_heap)) = Block 1"
  "output_path (fst (convertToCStruct example_config empty_heap)) = Block 2"
  "error_path (fst (convertToCStruct example_config empty_heap)) = Block 3"
  "log_path (fst (convertToCStruct example_config empty_heap)) = Block 5"
  "seccomp_rule_name (fst (convertToCStruct example_config empty_heap)) = Block 6"
  by (simp_all add: conv_struct next_after_env example_counts empty_heap_def)

lemma convertFromCStruct_fields:
  "sint (CPUTime (convertFromCStruct r cr)) = sint (cpu_time cr) \<and>
   sint (RealTime (convertFromCStruct r cr)) = sint (real_time cr) \<and>
   Memory (convertFromCStruct r cr) = scast (memory cr) \<and>
   sint (Signal (convertFromCStruct r cr)) = sint (signal cr) \<and>
   sint (ExitCode (convertFromCStruct r cr)) = sint (exit_code cr) \<and>
   sint (Result (convertFromCStruct r cr)) = sint (result cr) \<and>
   sint (Error (convertFromCStruct r cr)) = sint (error cr)"
  by (simp add: convertFromCStruct_def sint_scast_widen)

section \<open>The claims\<close>

subsection \<open>Argument and environment arrays\<close>

text \<open>
  C1, as the code has it: \<open>convertToCStruct\<close> reports no error. What the engine reads from
  the \<open>args\<close> array are the first \<open>ArgsMaxNumber - 1\<close> (255) arguments, in order, and from
  the \<open>env\<close> array the first \<open>EnvMaxNumber - 1\<close> (255) environment entries; the entries
  beyond are dropped, and a config with longer lists is converted exactly as the config
  whose lists are cut to 255 entries.
\<close>

theorem args_env_silently_truncated:
  "c_string_array (snd (convertToCStruct c h)) (args (fst (convertToCStruct c h))) =
     map Some (take (ArgsMaxNumber - 1) (Args c)) \<and>
   c_string_array (snd (convertToCStruct c h)) (env (fst (convertToCStruct c h))) =
     map Some (take (EnvMaxNumber - 1) (Env c)) \<and>
   convertToCStruct (c\<lparr>Args := take (ArgsMaxNumber - 1) (Args c),
       Env := take (EnvMaxNumber - 1) (Env c)\<rparr>) h = convertToCStruct c h"
  using conv_args_strings [of c h] conv_env_strings [of c h] conv_truncates [of c h]
  by (intro conjI)

text \<open>
  A config with 256 arguments: the engine's input holds 255 of them, so the conversion
  drops an argument.
\<close>

theorem args_truncation_counterexample:
  "length (Args (example_config\<lparr>Args := replicate 256 ''x''\<rparr>)) = 256 \<and>
   length (c_string_array
     (snd (convertToCStruct (example_config\<lparr>Args := replicate 256 ''x''\<rparr>) empty_heap))
     (args (fst (convertToCStruct (example_config\<lparr>Args := replicate 256 ''x''\<rparr>)
        empty_heap)))) = 255"
  by (simp add: conv_args_strings ArgsMaxNumber_def)

text \<open>
  C9: the \<open>args\<close> and \<open>env\<close> arrays that \<open>convertToCStruct\<close> produces are NULL-terminated.
  Each has 256 slots; at most 255 are filled, none of them with the null pointer, and every
  slot past the copied entries is still the null pointer of the zero-initialised struct
  (there is at least one such slot).
\<close>

theorem arrays_null_terminated:
  "length (args (fst (convertToCStruct c h))) = ArgsMaxNumber \<and>
   copied_count ArgsMaxNumber (Args c) \<le> 255 \<and>
   NULL \<notin> set (take (copied_count ArgsMaxNumber (Args c)) (args (fst (convertToCStruct c h)))) \<and>
   drop (copied_count ArgsMaxNumber (Args c)) (args (fst (convertToCStruct c h))) =
     replicate (256 - copied_count ArgsMaxNumber (Args c)) NULL \<and>
   length (env (fst (convertToCStruct c h))) = EnvMaxNumber \<and>
   copied_count EnvMaxNumber (Env c) \<le> 255 \<and>
   NULL \<notin> set (take (copied_count EnvMaxNumber (Env c)) (env (fst (convertToCStruct c h)))) \<and>
   drop (copied_count EnvMaxNumber (Env c)) (env (fst (convertToCStruct c h))) =
     replicate (256 - copied_count EnvMaxNumber (Env c)) NULL"
proof -
  have a: "copied_count ArgsMaxNumber (Args c) \<le> 255"
    and e: "copied_count EnvMaxNumber (Env c) \<le> 255"
    by (simp_all add: copied_count_def ArgsMaxNumber_def EnvMaxNumber_def)
  show ?thesis
    unfolding conv_args conv_env using a e
    by (simp add: ArgsMaxNumber_def EnvMaxNumber_def NULL_def image_iff)
qed

subsection \<open>Cleanup and the rule name\<close>

text \<open>
  C2, evaluated on the config with the one argument \<open>''a''\<close>: the argument's C string is the
  block at \<open>args[0]\<close>. \<open>Run\<close> calls \<open>C.free\<close> six times, on the five paths and the rule name;
  the cleanup loop over \<open>args\<close> stops at index 0 before any call, and the argument's block is
  still allocated when \<open>Run\<close> returns.
\<close>

theorem Run_leaks_argument:
  "args (fst (convertToCStruct example_config empty_heap)) ! 0 = Block 4 \<and>
   blocks (snd (convertToCStruct example_config empty_heap)) 4 = Some ''a'' \<and>
   free_calls (snd (Run engine example_config empty_heap)) =
     [Block 0, Block 1, Block 2, Block 3, Block 5, Block 6] \<and>
   blocks (snd (Run engine example_config empty_heap)) 4 = Some ''a''"
proof -
  have a: "args (fst (convertToCStruct example_config empty_heap)) ! 0 = Block 4"
    by (simp add: conv_args example_counts empty_heap_def nth_append)
  have b: "blocks (snd (convertToCStruct example_config empty_heap)) 4 = Some ''a''"
    using conv_blocks_arg [of 0 example_config empty_heap]
    by (simp add: example_counts empty_heap_def) (simp add: example_config_def)
  have f: "free_calls (snd (Run engine example_config empty_heap)) =
      [Block 0, Block 1, Block 2, Block 3, Block 5, Block 6]"
    by (simp add: Run_snd example_pointers c_free_def conv_free_calls) (simp add: empty_heap_def)
  have l: "blocks (snd (Run engine example_config empty_heap)) 4 = Some ''a''"
    using b by (simp add: Run_snd example_pointers c_free_def)
  from a b f l show ?thesis by (intro conjI)
qed

text \<open>
  C3, evaluated on a config whose \<open>SeccompRuleName\<close> is empty: the pointer handed to the
  engine is not the null pointer but the address of a block holding the empty string.
\<close>

theorem empty_rule_name_not_null:
  "SeccompRuleName example_config = [] \<and>
   seccomp_rule_name (fst (convertToCStruct example_config empty_heap)) = Block 6 \<and>
   seccomp_rule_name (fst (convertToCStruct example_config empty_heap)) \<noteq> NULL \<and>
   c_string (snd (convertToCStruct example_config empty_heap))
     (seccomp_rule_name (fst (convertToCStruct example_config empty_heap))) = Some []"
proof -
  have "blocks (snd (convertToCStruct example_config empty_heap)) 6 = Some []"
    by (simp add: conv_blocks Let_def example_counts) (simp add: empty_heap_def example_config_def)
  then show ?thesis
    by (simp add: example_pointers NULL_def c_string_def) (simp add: example_config_def)
qed

subsection \<open>The result\<close>

text \<open>
  C4, as the code has it: \<open>Run\<close> returns one \<open>Result\<close>, filled from the C result struct
  of the same call. \<open>CPUTime\<close>, \<open>RealTime\<close>, \<open>Signal\<close>, \<open>ExitCode\<close>, \<open>Result\<close> and \<open>Error\<close>
  have the value of the engine's field. \<open>Memory\<close> is the engine's \<open>memory\<close> converted to
  \<open>int32\<close>: it has the engine's value whenever that value fits in 32 signed bits.
\<close>

theorem Run_result_fields:
  assumes "engine (fst (convertToCStruct c h)) (snd (convertToCStruct c h)) = cr"
  shows "sint (CPUTime (fst (Run engine c h))) = sint (cpu_time cr) \<and>
    sint (RealTime (fst (Run engine c h))) = sint (real_time cr) \<and>
    sint (Signal (fst (Run engine c h))) = sint (signal cr) \<and>
    sint (ExitCode (fst (Run engine c h))) = sint (exit_code cr) \<and>
    sint (Result (fst (Run engine c h))) = sint (result cr) \<and>
    sint (Error (fst (Run engine c h))) = sint (error cr) \<and>
    Memory (fst (Run engine c h)) = scast (memory cr) \<and>
    (- (2 ^ 31) \<le> sint (memory cr) \<and> sint (memory cr) < 2 ^ 31 \<longrightarrow>
       sint (Memory (fst (Run engine c h))) = sint (memory cr))"
  using assms convertFromCStruct_fields [of zero_Result cr]
  by (simp add: Run_fst sint_scast_narrow)

text \<open>An engine that reports 4096 bytes of memory and 10 ms of CPU time.\<close>

theorem Run_result_fields_witness:
  "sint (Memory (fst (Run (\<lambda>cc h. big_memory_result\<lparr>memory := 4096\<rparr>)
      example_config empty_heap))) = 4096 \<and>
   sint (CPUTime (fst (Run (\<lambda>cc h. big_memory_result\<lparr>memory := 4096\<rparr>)
      example_config empty_heap))) = 10"
  using Run_result_fields [of "\<lambda>cc h. big_memory_result\<lparr>memory := 4096\<rparr>"
      example_config empty_heap "big_memory_result\<lparr>memory := 4096\<rparr>"]
  by (simp add: big_memory_result_def)

text \<open>
  With a 64-bit \<open>memory\<close> field, as \<open>C.long\<close> is on the platform, a peak of 2 GiB is
  returned as \<open>-2^31\<close>: the conversion of \<open>Memory\<close> is not value-preserving.
\<close>

theorem Run_result_fields_counterexample:
  "sint (memory big_memory_result) = 2147483648 \<and>
   sint (Memory (fst (Run (\<lambda>cc h. big_memory_result) example_config empty_heap)))
     = - 2147483648"
  by (simp add: Run_fst convertFromCStruct_def big_memory_result_def)

text \<open>
  C6: the \<open>Result\<close> that \<open>Run\<close> returns carries both axes, each taken from the C result
  struct the engine filled in that call: field \<open>Result\<close> is the engine's outcome code and
  field \<open>Error\<close> its fault code. With the engine's codes in the ranges that the doc comment
  of \<open>Result\<close> lists (outcome 0 to 5, fault 0 or -1 to -11), so are the two fields.
\<close>

theorem Run_reports_both_axes:
  assumes "engine (fst (convertToCStruct c h)) (snd (convertToCStruct c h)) = cr"
    and "0 \<le> sint (result cr)" and "sint (result cr) \<le> 5"
    and "- 11 \<le> sint (error cr)" and "sint (error cr) \<le> 0"
  shows "sint (Result (fst (Run engine c h))) = sint (result cr) \<and>
    sint (Error (fst (Run engine c h))) = sint (error cr) \<and>
    0 \<le> sint (Result (fst (Run engine c h))) \<and> sint (Result (fst (Run engine c h))) \<le> 5 \<and>
    - 11 \<le> sint (Error (fst (Run engine c h))) \<and> sint (Error (fst (Run engine c h))) \<le> 0"
  using assms convertFromCStruct_fields [of zero_Result cr]
  by (simp add: Run_fst)

text \<open>An engine that reports \<open>SYSTEM_ERROR\<close> with \<open>FORK_FAILED\<close>.\<close>

theorem Run_reports_both_axes_witness:
  "sint (Result (fst (Run (\<lambda>cc h. big_memory_result\<lparr>result := 5, error := - 2\<rparr>)
      example_config empty_heap))) = 5 \<and>
   sint (Error (fst (Run (\<lambda>cc h. big_memory_result\<lparr>result := 5, error := - 2\<rparr>)
      example_config empty_heap))) = - 2"
  using Run_reports_both_axes [of "\<lambda>cc h. big_memory_result\<lparr>result := 5, error := - 2\<rparr>"
      example_config empty_heap "big_memory_result\<lparr>result := 5, error := - 2\<rparr>"]
  by (simp add: big_memory_result_def)

subsection \<open>Numeric limits\<close>

text \<open>
  C5, as the code has it: the three \<open>int32\<close> limits (memory, stack, output size) reach the
  engine with their value unchanged; the three \<open>int\<close> limits (CPU time, real time, process
  number) are narrowed to \<open>C.int\<close> and keep their value whenever it fits in 32 bits; and on
  each of the six limits the sentinel \<open>-1\<close> reaches the engine as \<open>-1\<close>.
\<close>

theorem limits_conversion:
  "sint (max_memory (fst (convertToCStruct c h))) = sint (MaxMemory c) \<and>
   sint (max_stack (fst (convertToCStruct c h))) = sint (MaxStack c) \<and>
   sint (max_output_size (fst (convertToCStruct c h))) = sint (MaxOutputSize c) \<and>
   (- (2 ^ 31) \<le> sint (MaxCPUTime c) \<and> sint (MaxCPUTime c) < 2 ^ 31 \<longrightarrow>
      sint (max_cpu_time (fst (convertToCStruct c h))) = sint (MaxCPUTime c)) \<and>
   (- (2 ^ 31) \<le> sint (MaxRealTime c) \<and> sint (MaxRealTime c) < 2 ^ 31 \<longrightarrow>
      sint (max_real_time (fst (convertToCStruct c h))) = sint (MaxRealTime c)) \<and>
   (- (2 ^ 31) \<le> sint (MaxProcessNumber c) \<and> sint (MaxProcessNumber c) < 2 ^ 31 \<longrightarrow>
      sint (max_process_number (fst (convertToCStruct c h))) = sint (MaxProcessNumber c)) \<and>
   (MaxCPUTime c = - 1 \<longrightarrow> max_cpu_time (fst (convertToCStruct c h)) = - 1) \<and>
   (MaxRealTime c = - 1 \<longrightarrow> max_real_time (fst (convertToCStruct c h)) = - 1) \<and>
   (MaxMemory c = - 1 \<longrightarrow> max_memory (fst (convertToCStruct c h)) = - 1) \<and>
   (MaxStack c = - 1 \<longrightarrow> max_stack (fst (convertToCStruct c h)) = - 1) \<and>
   (MaxProcessNumber c = - 1 \<longrightarrow> max_process_number (fst (convertToCStruct c h)) = - 1) \<and>
   (MaxOutputSize c = - 1 \<longrightarrow> max_output_size (fst (convertToCStruct c h)) = - 1)"
  by (simp add: conv_struct sint_scast_widen sint_scast_narrow)

text \<open>
  The config with every limit at the sentinel, and the same config with a real-time limit
  of 2000 ms.
\<close>

theorem limits_conversion_witness:
  "sint (max_cpu_time (fst (convertToCStruct example_config empty_heap))) = - 1 \<and>
   max_memory (fst (convertToCStruct example_config empty_heap)) = - 1 \<and>
   sint (max_real_time
     (fst (convertToCStruct (example_config\<lparr>MaxRealTime := 2000\<rparr>) empty_heap))) = 2000"
  using limits_conversion [of example_config empty_heap]
    limits_conversion [of "example_config\<lparr>MaxRealTime := 2000\<rparr>" empty_heap]
  by (simp add: example_config_def)

text \<open>
  The conversion of \<open>MaxCPUTime\<close> is not value-preserving: a ceiling of \<open>2^32 - 1\<close> ms reaches
  the engine as \<open>-1\<close>, the sentinel for no limit.
\<close>

theorem limits_conversion_counterexample:
  "sint (MaxCPUTime (example_config\<lparr>MaxCPUTime := 4294967295\<rparr>)) = 4294967295 \<and>
   sint (max_cpu_time
     (fst (convertToCStruct (example_config\<lparr>MaxCPUTime := 4294967295\<rparr>) empty_heap))) = - 1"
  by (simp add: conv_struct)

text \<open>
  C10: the memory, stack and output-size ceilings are \<open>int32\<close> fields of \<open>Config\<close>, widened
  to \<open>C.long\<close>; whatever the config, the ceiling the engine receives lies between
  \<open>-2^31\<close> and \<open>2^31 - 1\<close>, so no ceiling above \<open>2^31 - 1\<close> bytes can be expressed.
\<close>

theorem ceilings_fit_int32:
  "- 2147483648 \<le> sint (max_memory (fst (convertToCStruct c h))) \<and>
   sint (max_memory (fst (convertToCStruct c h))) \<le> 2 ^ 31 - 1 \<and>
   - 2147483648 \<le> sint (max_stack (fst (convertToCStruct c h))) \<and>
   sint (max_stack (fst (convertToCStruct c h))) \<le> 2 ^ 31 - 1 \<and>
   - 2147483648 \<le> sint (max_output_size (fst (convertToCStruct c h))) \<and>
   sint (max_output_size (fst (convertToCStruct c h))) \<le> 2 ^ 31 - 1"
  using sint_32_range [of "MaxMemory c"] sint_32_range [of "MaxStack c"]
    sint_32_range [of "MaxOutputSize c"]
  by (simp add: conv_struct sint_scast_widen)

subsection \<open>The engine's classification\<close>



text \<open>
  C8: when the terminating signal could be explained by the CPU-time limit and by the
  memory limit alike, the classifier gives \<open>CPUTimeLimitExceeded\<close> exactly when the
  measured CPU time is at or beyond the configured CPU ceiling, and \<open>MemoryLimitExceeded\<close>
  otherwise.
\<close>

theorem cpu_memory_tie_break:
  assumes "cpu_signal cc t" and "memory_signal cc t"
  shows "classify cc t =
    (if sint (max_cpu_time cc) \<le> sint (cpu_used t)
     then CPUTimeLimitExceeded else MemoryLimitExceeded)"
proof -
  from assms(1) have "origin t \<noteq> Watchdog"
    by (auto simp: cpu_signal_def)
  then have "\<not> watchdog_kill cc t"
    by (simp add: watchdog_kill_def)
  with assms show ?thesis
    by (simp add: classify_def cpu_time_hit_def cpu_signal_def)
qed

text \<open>
  A CPU ceiling of 1000 ms, a wall-clock ceiling of 5 ms and a memory ceiling of 1 MiB; the
  child is killed by a delivered signal 9 after 5 ms of wall-clock time. At 1000 ms of CPU
  time the outcome is the CPU-time limit, at 999 ms the memory limit.
\<close>

theorem cpu_memory_tie_break_witness:
  "classify (zero_c_config\<lparr>max_cpu_time := 1000, max_real_time := 5, max_memory := 1048576\<rparr>)
     (clean_exit\<lparr>term_signal := 9, cpu_used := 1000, origin := Delivered True True\<rparr>)
     = CPUTimeLimitExceeded \<and>
   classify (zero_c_config\<lparr>max_cpu_time := 1000, max_real_time := 5, max_memory := 1048576\<rparr>)
     (clean_exit\<lparr>term_signal := 9, cpu_used := 999, origin := Delivered True True\<rparr>)
     = MemoryLimitExceeded"
  using
    cpu_memory_tie_break [of
      "zero_c_config\<lparr>max_cpu_time := 1000, max_real_time := 5, max_memory := 1048576\<rparr>"
      "clean_exit\<lparr>term_signal := 9, cpu_used := 1000, origin := Delivered True True\<rparr>"]
    cpu_memory_tie_break [of
      "zero_c_config\<lparr>max_cpu_time := 1000, max_real_time := 5, max_memory := 1048576\<rparr>"
      "clean_exit\<lparr>term_signal := 9, cpu_used := 999, origin := Delivered True True\<rparr>"]
  by (simp add: cpu_signal_def memory_signal_def unlimited_def zero_c_config_def
      clean_exit_def)

end
